theory Spec2Isabelle
  imports Complex_Main
begin

section \<open>Python, NumPy, SciPy and Matplotlib primitives used by \<open>bycycle/spikes/plts.py\<close>\<close>

text \<open>
  The plotting module works on one-dimensional arrays of float64 samples. A finite
  float64 is modelled as the \<^typ>\<open>real\<close> number it denotes, and the non-finite
  values as constructors of their own. The arithmetic the module itself performs is
  float64 arithmetic: the exact result rounded to the nearest float64, ties to even
  (\<open>fl64\<close> below). Exceptions are values of \<open>py_error\<close>, returned as the left summand.
\<close>

datatype py_error =
  IndexError | ValueError | ZeroDivisionError | UnboundLocalError | OverflowError

datatype npfloat = Fin real | NaN | PInf | NInf

text \<open>Sequencing: the first exception raised ends the run.\<close>

definition bind_err :: "'e + 'a \<Rightarrow> ('a \<Rightarrow> 'e + 'b) \<Rightarrow> 'e + 'b" where
  "bind_err m f = (case m of Inl e \<Rightarrow> Inl e | Inr v \<Rightarrow> f v)"

text \<open>
  A slice bound \<open>i\<close> on a sequence of length \<open>n\<close>: a negative bound counts from the
  end, and every bound is clipped to \<open>[0, n]\<close>. Slicing never raises.
\<close>

definition slice_index :: "nat \<Rightarrow> int \<Rightarrow> nat" where
  "slice_index n i = (if i < 0 then nat (int n + i) else min n (nat i))"

text \<open>\<open>xs[lo:hi]\<close>, \<open>xs[lo:]\<close> and \<open>xs[:hi]\<close>.\<close>

definition py_slice :: "'a list \<Rightarrow> int \<Rightarrow> int \<Rightarrow> 'a list" where
  "py_slice xs lo hi =
     (let a = slice_index (length xs) lo; b = slice_index (length xs) hi
      in take (b - a) (drop a xs))"

definition slice_from :: "'a list \<Rightarrow> int \<Rightarrow> 'a list" where
  "slice_from xs lo = drop (slice_index (length xs) lo) xs"

definition slice_to :: "'a list \<Rightarrow> int \<Rightarrow> 'a list" where
  "slice_to xs hi = take (slice_index (length xs) hi) xs"

text \<open>\<open>int(x)\<close> on a finite float: truncation toward zero.\<close>

definition py_int :: "real \<Rightarrow> int" where
  "py_int x = (if x < 0 then \<lceil>x\<rceil> else \<lfloor>x\<rfloor>)"

section \<open>Float64 rounding\<close>

text \<open>
  Rounding a real to the nearest integer, a tie going to the even neighbour.
\<close>

definition round_even :: "real \<Rightarrow> int" where
  "round_even y =
     (let f = \<lfloor>y\<rfloor>; d = y - of_int f
      in if d < 1/2 then f else if 1/2 < d then f + 1 else if even f then f else f + 1)"

text \<open>
  The binary exponent of a non-zero real, held at \<open>-1022\<close> in the subnormal range,
  and the spacing of the float64 numbers around it: 53 significant bits.
\<close>

definition bexp :: "real \<Rightarrow> int" where
  "bexp x = max \<lfloor>log 2 \<bar>x\<bar>\<rfloor> (- 1022)"

definition ulp64 :: "real \<Rightarrow> real" where
  "ulp64 x = 2 powr (of_int (bexp x - 52))"

text \<open>
  \<open>fl64 x\<close> is the multiple of the spacing nearest to \<open>x\<close>: the float64 that an
  arithmetic operation with exact result \<open>x\<close> returns, as long as it does not
  overflow. A result of magnitude \<open>2^1024\<close> after rounding is an overflow; \<open>f64\<close>
  returns the infinity then.
\<close>

definition fl64 :: "real \<Rightarrow> real" where
  "fl64 x = (if x = 0 then 0 else of_int (round_even (x / ulp64 x)) * ulp64 x)"

definition f64_overflow :: real where
  "f64_overflow = 2 ^ 1024"

definition f64 :: "real \<Rightarrow> npfloat" where
  "f64 x =
     (if f64_overflow \<le> \<bar>fl64 x\<bar> then (if 0 < x then PInf else NInf) else Fin (fl64 x))"

section \<open>\<open>_infer_labels\<close>\<close>

text \<open>
  The two branches assign \<open>labels\<close> and \<open>keys\<close>; with any other argument neither
  local is bound and the \<open>return\<close> raises \<open>UnboundLocalError\<close>.
\<close>

definition infer_labels :: "string \<Rightarrow> py_error + (string list \<times> string list)" where
  "infer_labels center_e =
     (if center_e = ''trough'' then
        Inr ([''Trough'', ''Peak'', ''Inflection''],
             [''sample_trough'', ''sample_next_peak'', ''sample_end''])
      else if center_e = ''peak'' then
        Inr ([''Peak'', ''Trough'', ''Inflection''],
             [''sample_peak'', ''sample_next_trough'', ''sample_end''])
      else Inl UnboundLocalError)"

section \<open>Cycle extraction\<close>

text \<open>
  \<open>plot_spikes\<close> (single-spike branch) and \<open>plot_gaussian_fit\<close> both cut the cycle out
  of the signal with \<open>sig[start:end+1]\<close>. The two indices come out of
  \<open>.astype(int)\<close> as int64 values and are the integers they denote here; \<open>end + 1\<close>
  is an int64 addition, which is the integer sum for every \<open>end\<close> below
  \<open>2^63 - 1\<close>.
\<close>

definition sig_lim :: "real list \<Rightarrow> int \<Rightarrow> int \<Rightarrow> real list" where
  "sig_lim sig start end = py_slice sig start (end + 1)"

definition sig_cyc :: "real list \<Rightarrow> int \<Rightarrow> int \<Rightarrow> real list" where
  "sig_cyc sig start end = py_slice sig start (end + 1)"

section \<open>NumPy arithmetic\<close>

text \<open>
  \<open>np.arange(0, stop, step)\<close> on floats has \<open>ceil(stop / step)\<close> entries, the
  quotient being the float64 one (none when that is not positive); the \<open>i\<close>-th entry
  is the float64 product \<open>i * step\<close>.
\<close>

definition np_arange0 :: "real \<Rightarrow> real \<Rightarrow> real list" where
  "np_arange0 stop step =
     map (\<lambda>i. fl64 (real i * step)) [0..<nat \<lceil>fl64 (stop / step)\<rceil>]"

text \<open>
  \<open>a - b\<close> on one-dimensional arrays: elementwise on equal lengths, an operand of
  length 1 is broadcast, any other pair of shapes raises \<open>ValueError\<close>.
\<close>

definition np_subtract :: "real list \<Rightarrow> real list \<Rightarrow> py_error + real list" where
  "np_subtract a b =
     (if length a = length b then Inr (map2 (\<lambda>x y. fl64 (x - y)) a b)
      else if length b = 1 then Inr (map (\<lambda>x. fl64 (x - hd b)) a)
      else if length a = 1 then Inr (map (\<lambda>y. fl64 (hd a - y)) b)
      else Inl ValueError)"

text \<open>\<open>fs * a\<close> for a float \<open>fs\<close> and an array \<open>a\<close>.\<close>

definition np_scale :: "real \<Rightarrow> real list \<Rightarrow> real list" where
  "np_scale fs a = map (\<lambda>t. fl64 (fs * t)) a"

text \<open>
  The product of a float64 scalar and a Python integer, as in \<open>Na_center * cyc_len\<close>.
  The integer is converted to float64 first, which changes no integer below \<open>2^53\<close>;
  the integers here are lengths of arrays.
\<close>

definition np_times_int :: "npfloat \<Rightarrow> nat \<Rightarrow> npfloat" where
  "np_times_int x n =
     (case x of
        Fin c \<Rightarrow> f64 (c * real n)
      | NaN \<Rightarrow> NaN
      | PInf \<Rightarrow> (if n = 0 then NaN else PInf)
      | NInf \<Rightarrow> (if n = 0 then NaN else NInf))"

text \<open>
  Mean and standard deviation (\<open>ddof=0\<close>: the root of the mean squared deviation) of
  a sequence of reals, in exact arithmetic.
\<close>

definition np_mean :: "real list \<Rightarrow> real" where
  "np_mean a = sum_list a / real (length a)"

definition np_std :: "real list \<Rightarrow> real" where
  "np_std a = sqrt (np_mean (map (\<lambda>x. (x - np_mean a)\<^sup>2) a))"


section \<open>\<open>scipy.stats.zscore\<close>\<close>

text \<open>
  The library function the module calls on each residual region, with its default
  arguments (\<open>axis=0\<close>, \<open>ddof=0\<close>). It has no raising path for a one-dimensional
  array of floats: an empty input gives an empty output, and an input whose entries
  all equal the first one gives NaN in every position (the library tests
  \<open>(a[0] == a).all()\<close> and overwrites the quotient; releases without that test
  divide the zero deviations by the zero standard deviation, which is NaN as well).
  Every other input gives
  \<open>(a - a.mean()) / a.std()\<close>.
\<close>

definition zscore :: "real list \<Rightarrow> npfloat list" where
  "zscore a =
     (if a = [] then []
      else
        let mn = np_mean a; std = np_std a; isconst = list_all (\<lambda>x. x = hd a) a
        in if isconst then map (\<lambda>x. NaN) a
           else map (\<lambda>x. Fin ((x - mn) / std)) a)"

text \<open>
  The empty and the constant case are the library's own tests. The quotient of the
  remaining case is written in exact arithmetic: the rounding inside the library's
  summations is not part of this development, and nothing below depends on more of
  that case than the length of its result.
\<close>

section \<open>What a run leaves behind\<close>

text \<open>
  A plotted line is its pair of coordinate sequences. The state that the plotting
  functions change: the argument lists passed to \<open>sim_skewed_gaussian_cycle\<close> so far,
  the lines drawn in the figure under construction, and the figures already shown.
\<close>

type_synonym line = "real list \<times> npfloat list"

record run_state =
  sim_calls :: "npfloat list list"
  current_fig :: "line list"
  shown :: "line list list"

definition run_empty :: run_state where
  "run_empty = \<lparr> sim_calls = [], current_fig = [], shown = [] \<rparr>"

text \<open>
  \<open>sim_skewed_gaussian_cycle\<close> belongs to \<open>neurodsp\<close>; it is the parameter \<open>sim\<close>,
  applied to the unpacked list \<open>[n_seconds, fs, center, std, alpha, height]\<close>. A
  call applies it and records the arguments.
\<close>

definition call_sim ::
  "(npfloat list \<Rightarrow> py_error + real list) \<Rightarrow> npfloat list \<Rightarrow> run_state
     \<Rightarrow> py_error + (real list \<times> run_state)" where
  "call_sim sim p st =
     bind_err (sim p) (\<lambda>w. Inr (w, st\<lparr>sim_calls := sim_calls st @ [p]\<rparr>))"

text \<open>
  \<open>plt.plot(x, y)\<close> adds a line and raises \<open>ValueError\<close> when the two lengths
  differ; \<open>plt.plot(y)\<close> draws against the positions \<open>0, 1, ...\<close>; \<open>plt.show()\<close>
  closes the figure. Titles, labels, legends and the vertical marker lines draw no
  data and are left out.
\<close>

definition plt_plot :: "real list \<Rightarrow> npfloat list \<Rightarrow> run_state \<Rightarrow> py_error + run_state" where
  "plt_plot xs ys st =
     (if length xs = length ys then Inr (st\<lparr>current_fig := current_fig st @ [(xs, ys)]\<rparr>)
      else Inl ValueError)"

definition plt_plot_y :: "npfloat list \<Rightarrow> run_state \<Rightarrow> run_state" where
  "plt_plot_y ys st = st\<lparr>current_fig := current_fig st @ [(map real [0..<length ys], ys)]\<rparr>"

definition plt_show :: "run_state \<Rightarrow> run_state" where
  "plt_show st = st\<lparr>shown := shown st @ [current_fig st], current_fig := []\<rparr>"

definition plot_sing_gaus :: "real list \<Rightarrow> real list \<Rightarrow> run_state \<Rightarrow> run_state" where
  "plot_sing_gaus gaus sig st = plt_show (plt_plot_y (map Fin sig) (plt_plot_y (map Fin gaus) st))"

section \<open>\<open>plot_gaussian_fit\<close>\<close>

text \<open>
  One row of the feature table, with the columns the function reads. The two sample
  columns are the integers read through \<open>.astype(int)\<close>; the shape columns are
  float64 values, NaN included.
\<close>

record cycle_features =
  sample_start :: int
  sample_end :: int
  Na_center :: npfloat
  Na_std :: npfloat
  Na_alpha :: npfloat
  Na_height :: npfloat
  Cond_center :: npfloat
  Cond_std :: npfloat
  Cond_alpha :: npfloat
  Cond_height :: npfloat
  K_center :: npfloat
  K_std :: npfloat
  K_alpha :: npfloat
  K_height :: npfloat

text \<open>The locals of the function, each as a function of the locals it is computed from.\<close>

definition times_cyc :: "nat \<Rightarrow> real \<Rightarrow> real list" where
  "times_cyc cyc_len fs = np_arange0 (fl64 (real cyc_len / fs)) (fl64 (1 / fs))"

text \<open>
  \<open>int(Na_center * cyc_len)\<close>: \<open>int\<close> raises \<open>ValueError\<close> on NaN and
  \<open>OverflowError\<close> on an infinity.
\<close>

definition na_center :: "npfloat \<Rightarrow> nat \<Rightarrow> py_error + int" where
  "na_center center cyc_len =
     (case np_times_int center cyc_len of
        Fin p \<Rightarrow> Inr (py_int p)
      | NaN \<Rightarrow> Inl ValueError
      | PInf \<Rightarrow> Inl OverflowError
      | NInf \<Rightarrow> Inl OverflowError)"

definition rem_sig_k :: "real list \<Rightarrow> int \<Rightarrow> real list" where
  "rem_sig_k rem_sig split = slice_from rem_sig split"

definition rem_sig_cond :: "real list \<Rightarrow> int \<Rightarrow> real list" where
  "rem_sig_cond rem_sig split = slice_to rem_sig split"

definition times_k :: "real list \<Rightarrow> int \<Rightarrow> real list" where
  "times_k ts split = slice_from ts split"

definition times_cond :: "real list \<Rightarrow> int \<Rightarrow> real list" where
  "times_cond ts split = slice_to ts split"

text \<open>The three argument lists for the synthesizer.\<close>

definition na_params :: "cycle_features \<Rightarrow> nat \<Rightarrow> real \<Rightarrow> npfloat list" where
  "na_params df cyc_len fs =
     [Fin (fl64 (real cyc_len / fs)), Fin fs, Na_center df, Na_std df, Na_alpha df,
      Na_height df]"

definition cond_params :: "cycle_features \<Rightarrow> real list \<Rightarrow> real \<Rightarrow> npfloat list" where
  "cond_params df rem_cond fs =
     [Fin (fl64 (real (length rem_cond) / fs)), Fin fs, Cond_center df, Cond_std df,
      Cond_alpha df, Cond_height df]"

definition k_params :: "cycle_features \<Rightarrow> real list \<Rightarrow> real \<Rightarrow> npfloat list" where
  "k_params df rem_k fs =
     [Fin (fl64 (real (length rem_k) / fs)), Fin fs, K_center df, K_std df, K_alpha df,
      K_height df]"

text \<open>
  The function, statement by statement. A zero \<open>fs\<close> raises \<open>ZeroDivisionError\<close> at
  the first division.
\<close>

definition plot_gaussian_fit ::
  "(npfloat list \<Rightarrow> py_error + real list) \<Rightarrow> cycle_features \<Rightarrow> real list \<Rightarrow> real \<Rightarrow> real \<Rightarrow> real
     \<Rightarrow> run_state \<Rightarrow> py_error + run_state" where
  "plot_gaussian_fit sim df sig fs z_thresh_cond z_thresh_k st0 =
     (let cyc = sig_cyc sig (sample_start df) (sample_end df);
          cyc_len = length cyc
      in
      if fs = 0 then Inl ZeroDivisionError
      else
        let t_cyc = times_cyc cyc_len fs in
        bind_err (call_sim sim (na_params df cyc_len fs) st0) (\<lambda>(na_gaus, st1).
        let st2 = plot_sing_gaus na_gaus cyc st1 in
        bind_err (na_center (Na_center df) cyc_len) (\<lambda>split.
        bind_err (np_subtract cyc na_gaus) (\<lambda>rem_sig.
        let rem_k = rem_sig_k rem_sig split;
            rem_cond = rem_sig_cond rem_sig split;
            t_k = times_k t_cyc split;
            t_cond = times_cond t_cyc split
        in
        bind_err (plt_plot (np_scale fs t_k) (map Fin rem_k) st2) (\<lambda>st3.
        bind_err (plt_plot (np_scale fs t_cond) (map Fin rem_cond) st3) (\<lambda>st4.
        let st5 = plt_show st4;
            z_score_k = zscore rem_k;
            z_score_cond = zscore rem_cond
        in
        bind_err (plt_plot (np_scale fs t_k) z_score_k st5) (\<lambda>st6.
        bind_err (plt_plot (np_scale fs t_cond) z_score_cond st6) (\<lambda>st7.
        bind_err (plt_plot (np_scale fs t_k) (map Fin (replicate (length t_k) z_thresh_k)) st7)
          (\<lambda>st8.
        bind_err (plt_plot (np_scale fs t_cond)
                    (map Fin (replicate (length t_cond) z_thresh_cond)) st8)
          (\<lambda>st9.
        let st10 = plt_show st9 in
        bind_err (call_sim sim (cond_params df rem_cond fs) st10) (\<lambda>(cond_gaus, st11).
        bind_err (call_sim sim (k_params df rem_k fs) st11) (\<lambda>(k_gaus, st12).
        let st13 = plot_sing_gaus cond_gaus rem_cond st12;
            st14 = plot_sing_gaus k_gaus rem_k st13;
            st15 = plt_plot_y (map Fin cyc) st14;
            st16 = plt_plot_y (map Fin na_gaus) st15
        in
        bind_err (plt_plot (np_scale fs t_k) (map Fin k_gaus) st16) (\<lambda>st17.
        bind_err (plt_plot (np_scale fs t_cond) (map Fin cond_gaus) st17) (\<lambda>st18.
        Inr (plt_show st18)))))))))))))))"


section \<open>\<open>plot_gen_spikes\<close>\<close>






section \<open>The specification's own words\<close>

text \<open>
  The specification describes the split index as \<open>round(center * L)\<close> clamped to
  \<open>[0, L]\<close>. This definition follows those words, for comparison with \<open>na_center\<close>;
  \<open>round\<close> takes a half upwards, and the comparison below is made away from any half.
\<close>

definition spec_split :: "real \<Rightarrow> nat \<Rightarrow> int" where
  "spec_split center L = max 0 (min (int L) (round (center * real L)))"


section \<open>Concrete data\<close>

text \<open>
  To run \<open>plot_gaussian_fit\<close> on concrete data the synthesizer parameter needs a
  value. \<open>flat_sim\<close> is a stand-in with the synthesizer's interface: a waveform of
  \<open>ceil(n_seconds * fs)\<close> samples, all at the given height. \<open>example_row\<close> is a
  feature row for a cycle of four samples.
\<close>

definition flat_sim :: "npfloat list \<Rightarrow> py_error + real list" where
  "flat_sim p =
     (case (p ! 0, p ! 1, p ! 5) of
        (Fin n_seconds, Fin fs, Fin height) \<Rightarrow>
          Inr (replicate (nat \<lceil>fl64 (n_seconds * fs)\<rceil>) height)
      | _ \<Rightarrow> Inl ValueError)"

definition example_row :: cycle_features where
  "example_row = \<lparr> sample_start = 0, sample_end = 3,
     Na_center = Fin (1/2), Na_std = Fin 1, Na_alpha = Fin 0, Na_height = Fin 1,
     Cond_center = Fin (1/2), Cond_std = Fin 1, Cond_alpha = Fin 0, Cond_height = Fin 1,
     K_center = Fin (1/2), K_std = Fin 1, K_alpha = Fin 0, K_height = Fin 2 \<rparr>"

section \<open>Properties\<close>

lemma slice_index_nonneg: "0 \<le> i \<Longrightarrow> slice_index n i = min n (nat i)"
  by (simp add: slice_index_def)


lemma py_slice_nonneg:
  "0 \<le> lo \<Longrightarrow> 0 \<le> hi \<Longrightarrow> py_slice xs lo hi = take (nat hi - nat lo) (drop (nat lo) xs)"
  by (cases "nat hi \<le> length xs"; cases "nat lo \<le> length xs")
     (auto simp: py_slice_def slice_index_nonneg Let_def min_def)


lemma slice_to_from: "slice_to xs s @ slice_from xs s = xs"
  by (simp add: slice_to_def slice_from_def)

subsection \<open>Label inference\<close>

text \<open>
  C9. \<open>_infer_labels\<close> is defined only for the centre extrema \<open>'trough'\<close> and
  \<open>'peak'\<close>: each gives its three labels and its three column keys, and every other
  argument fails, because no branch binds the returned locals.
\<close>

theorem infer_labels_cases:
  "infer_labels ''trough'' =
     Inr ([''Trough'', ''Peak'', ''Inflection''],
          [''sample_trough'', ''sample_next_peak'', ''sample_end'']) \<and>
   infer_labels ''peak'' =
     Inr ([''Peak'', ''Trough'', ''Inflection''],
          [''sample_peak'', ''sample_next_trough'', ''sample_end'']) \<and>
   (\<forall>c. c \<noteq> ''trough'' \<and> c \<noteq> ''peak'' \<longrightarrow> infer_labels c = Inl UnboundLocalError)"
  by (simp add: infer_labels_def)

theorem infer_labels_cases_witness:
  "''burst'' \<noteq> ''trough'' \<and> ''burst'' \<noteq> ''peak'' \<and> infer_labels ''burst'' = Inl UnboundLocalError"
  using infer_labels_cases by simp

subsection \<open>Cycle extraction\<close>

text \<open>
  C6. For a cycle record with \<open>start \<le> end\<close> and both indices inside the waveform, the
  extracted cycle is \<open>sig[start : end+1]\<close>, the \<open>end - start + 1\<close> samples from
  position \<open>start\<close> on; \<open>plot_spikes\<close> and \<open>plot_gaussian_fit\<close> cut the same slice.
\<close>

theorem sig_cyc_in_bounds:
  "0 \<le> start \<Longrightarrow> start \<le> end \<Longrightarrow> end < int (length sig) \<Longrightarrow>
     sig_cyc sig start end = take (nat (end - start + 1)) (drop (nat start) sig) \<and>
     length (sig_cyc sig start end) = nat (end - start + 1) \<and>
     sig_lim sig start end = sig_cyc sig start end"
  apply (simp add: sig_cyc_def sig_lim_def py_slice_nonneg)
  apply (intro conjI)
   apply (rule arg_cong[where f="\<lambda>n. take n _"])
   apply linarith
  apply linarith
  done

theorem sig_cyc_in_bounds_witness:
  "(0::int) \<le> 1 \<and> (1::int) \<le> 3 \<and> 3 < int (length [10, 20, 30, 40, 50::real]) \<and>
   sig_cyc [10, 20, 30, 40, 50] 1 3 = [20, 30, 40] \<and>
   length (sig_cyc [10, 20, 30, 40, 50] 1 3) = 3"
  using sig_cyc_in_bounds [of 1 3 "[10, 20, 30, 40, 50]"] by simp

subsection \<open>Splitting the residual\<close>

text \<open>
  C2. For a residual of length \<open>L\<close> and a split index \<open>s\<close> in \<open>[0, L]\<close>, the lengths of
  the conductive and the potassium region add up to \<open>L\<close>, and the conductive region
  followed by the potassium region is the residual itself.
\<close>

theorem rem_sig_partition:
  "0 \<le> s \<Longrightarrow> s \<le> int (length r) \<Longrightarrow>
     length (rem_sig_cond r s) + length (rem_sig_k r s) = length r \<and>
     rem_sig_cond r s @ rem_sig_k r s = r \<and>
     length (rem_sig_cond r s) = nat s"
  by (auto simp: rem_sig_cond_def rem_sig_k_def slice_to_def slice_from_def slice_index_def)

theorem rem_sig_partition_witness:
  "(0::int) \<le> 3 \<and> 3 \<le> int (length [0, 0, 0, 2, 3::real]) \<and>
   rem_sig_cond [0, 0, 0, 2, 3] 3 = [0, 0, 0] \<and> rem_sig_k [0, 0, 0, 2, 3] 3 = [2, 3]"
  using rem_sig_partition [of 3 "[0, 0, 0, 2, 3]"]
  by (simp add: rem_sig_cond_def rem_sig_k_def slice_to_def slice_from_def slice_index_def)

subsection \<open>Empty regions\<close>

text \<open>
  C4 (as stated). The claim that normalising the empty region of a split at 0 fails
  does not hold: the z-score of the empty conductive region is the empty sequence.
\<close>

theorem zscore_empty_region: "zscore (rem_sig_cond [1, 2, 3] 0) = []"
  by (simp add: zscore_def rem_sig_cond_def slice_to_def slice_index_def)

text \<open>
  C4 (amended). A split at 0 leaves the conductive region empty and a split at \<open>L\<close>
  leaves the potassium region empty, the other region being the whole residual; the
  z-score of the empty region is the empty sequence.
\<close>

theorem zscore_split_at_ends:
  "rem_sig_cond r 0 = [] \<and> rem_sig_k r 0 = r \<and>
   rem_sig_k r (int (length r)) = [] \<and> rem_sig_cond r (int (length r)) = r \<and>
   zscore (rem_sig_cond r 0) = [] \<and> zscore (rem_sig_k r (int (length r))) = []"
  by (simp add: zscore_def rem_sig_cond_def rem_sig_k_def slice_to_def slice_from_def
      slice_index_def)

subsection \<open>Mean and standard deviation\<close>

lemma sum_list_const: "\<forall>x\<in>set a. x = c \<Longrightarrow> sum_list a = real (length a) * (c::real)"
  by (induction a) (auto simp: algebra_simps)

lemma np_mean_const: "a \<noteq> [] \<Longrightarrow> \<forall>x\<in>set a. x = c \<Longrightarrow> np_mean a = c"
  by (simp add: np_mean_def sum_list_const)

lemma np_std_const: "a \<noteq> [] \<Longrightarrow> \<forall>x\<in>set a. x = c \<Longrightarrow> np_std a = 0"
proof -
  assume ne: "a \<noteq> []" and all: "\<forall>x\<in>set a. x = c"
  have m: "np_mean a = c" using ne all by (rule np_mean_const)
  have "\<forall>y\<in>set (map (\<lambda>x. (x - np_mean a)\<^sup>2) a). y = 0" using all m by auto
  then have "sum_list (map (\<lambda>x. (x - np_mean a)\<^sup>2) a) =
      real (length (map (\<lambda>x. (x - np_mean a)\<^sup>2) a)) * 0"
    by (rule sum_list_const)
  then show ?thesis by (simp add: np_std_def np_mean_def[of "map _ _"])
qed

lemma isconst_iff:
  "a \<noteq> [] \<Longrightarrow> list_all (\<lambda>x. x = hd a) a \<longleftrightarrow> (\<exists>c. \<forall>x\<in>set a. x = c)"
  by (cases a) (auto simp: list_all_iff)

subsection \<open>Constant regions\<close>

text \<open>
  C3 (as stated). The claim that a constant region makes the normalisation fail, and
  that no NaN is ever produced silently, does not hold: the z-score of the all-zero
  region of length 5 is five NaNs, returned as an ordinary result.
\<close>

theorem zscore_all_zero: "zscore [0, 0, 0, 0, 0] = [NaN, NaN, NaN, NaN, NaN]"
  by (simp add: zscore_def)

text \<open>
  C3 (amended). For a non-empty region whose samples are all equal, the standard
  deviation is zero and the z-score is a sequence of the region's length with NaN in
  every position.
\<close>

theorem zscore_constant:
  "a \<noteq> [] \<Longrightarrow> \<forall>x\<in>set a. x = c \<Longrightarrow> zscore a = replicate (length a) NaN \<and> np_std a = 0"
proof -
  assume ne: "a \<noteq> []" and all: "\<forall>x\<in>set a. x = c"
  have "list_all (\<lambda>x. x = hd a) a" using ne all isconst_iff[OF ne] by blast
  then have "zscore a = map (\<lambda>x. NaN) a" using ne by (simp add: zscore_def)
  then show ?thesis using np_std_const[OF ne all] by (simp add: map_replicate_const)
qed

theorem zscore_constant_witness:
  "[4, 4, 4] \<noteq> ([]::real list) \<and> zscore [4, 4, 4] = [NaN, NaN, NaN] \<and>
   np_std [4, 4, 4] = 0"
  using zscore_constant [of "[4, 4, 4]" 4] by (simp add: numeral_3_eq_3)

subsection \<open>Float64 rounding\<close>

lemma round_even_of_int [simp]: "round_even (of_int k) = k"
  by (simp add: round_even_def)

lemma round_even_cases:
  "round_even y = \<lfloor>y\<rfloor> \<or> round_even y = \<lfloor>y\<rfloor> + 1"
  by (simp add: round_even_def Let_def)


lemma round_even_le: "y \<le> of_int k \<Longrightarrow> round_even y \<le> k"
proof -
  assume le: "y \<le> of_int k"
  show ?thesis
  proof (cases "y = of_int k")
    case True then show ?thesis by simp
  next
    case False
    then have "y < of_int k" using le by simp
    then have "\<lfloor>y\<rfloor> < k" by (simp add: floor_less_iff)
    then show ?thesis using round_even_cases[of y] by auto
  qed
qed

lemma round_even_ge: "of_int k \<le> y \<Longrightarrow> k \<le> round_even y"
proof -
  assume "of_int k \<le> y"
  then have "k \<le> \<lfloor>y\<rfloor>" by (simp add: le_floor_iff)
  then show ?thesis using round_even_cases[of y] by auto
qed

lemma ulp64_pos: "0 < ulp64 x"
  by (simp add: ulp64_def)

lemma bexp_le: "x \<noteq> 0 \<Longrightarrow> \<bar>x\<bar> < 2 powr (of_int e + 1) \<Longrightarrow> - 1022 \<le> e \<Longrightarrow> bexp x \<le> e"
proof -
  assume x: "x \<noteq> 0" and lt: "\<bar>x\<bar> < 2 powr (of_int e + 1)" and e: "- 1022 \<le> e"
  have "log 2 \<bar>x\<bar> < of_int e + 1" using x lt by (simp add: log_less_iff)
  then have "\<lfloor>log 2 \<bar>x\<bar>\<rfloor> \<le> e" by (simp add: floor_le_iff)
  then show ?thesis using e by (simp add: bexp_def)
qed

lemma bexp_eq: "x \<noteq> 0 \<Longrightarrow> 2 powr (of_int e) \<le> \<bar>x\<bar> \<Longrightarrow> \<bar>x\<bar> < 2 powr (of_int e + 1) \<Longrightarrow> - 1022 \<le> e \<Longrightarrow> bexp x = e"
proof -
  assume x: "x \<noteq> 0" and ge: "2 powr (of_int e) \<le> \<bar>x\<bar>" and lt: "\<bar>x\<bar> < 2 powr (of_int e + 1)" and e: "- 1022 \<le> e"
  have "\<lfloor>log 2 \<bar>x\<bar>\<rfloor> = e" using x ge lt by (subst floor_log_eq_powr_iff) auto
  then show ?thesis using e by (simp add: bexp_def)
qed

lemma powr2_int_diff: "2 powr (of_int (a - b)) = 2 powr (of_int a) / (2 powr (of_int b) :: real)"
  by (simp add: powr_diff)

lemma powr2_nat: "(2::real) powr (of_int (int n)) = 2 ^ n"
  by (simp add: powr_realpow)

lemma powr2_nonneg_int: "0 \<le> d \<Longrightarrow> (2::real) powr (of_int d) = of_int (2 ^ nat d)"
proof -
  assume "0 \<le> d"
  then have "(2::real) powr (of_int d) = 2 powr (of_int (int (nat d)))" by simp
  also have "\<dots> = 2 ^ nat d" by (rule powr2_nat)
  finally show ?thesis by simp
qed

lemma fl64_exact:
  assumes x: "x = of_int m * 2 powr (of_int j)" and m: "\<bar>m\<bar> < 2 ^ 53" and j: "- 1074 \<le> j"
  shows "fl64 x = x"
proof (cases "x = 0")
  case True then show ?thesis by (simp add: fl64_def)
next
  case False
  have "\<bar>x\<bar> = of_int \<bar>m\<bar> * 2 powr (of_int j)" by (simp add: x abs_mult)
  also have "\<dots> < 2 ^ 53 * 2 powr (of_int j)"
  proof -
    have "real_of_int \<bar>m\<bar> < real_of_int (2 ^ 53)" using m by (simp only: of_int_less_iff)
    then show ?thesis by simp
  qed
  also have "\<dots> = 2 powr (of_int (j + 52) + 1)"
    by (simp add: powr_add)
  finally have lt: "\<bar>x\<bar> < 2 powr (of_int (j + 52) + 1)" .
  have le: "bexp x \<le> j + 52" using False lt j by (intro bexp_le) auto
  define d where "d = j + 52 - bexp x"
  have d: "0 \<le> d" using le by (simp add: d_def)
  have u: "ulp64 x = 2 powr (of_int j) / 2 powr (of_int d)"
    unfolding ulp64_def d_def by (simp add: powr_diff[symmetric])
  have pd: "(2::real) powr (of_int d) = of_int (2 ^ nat d)" by (rule powr2_nonneg_int[OF d])
  have "x / ulp64 x = x * 2 powr (of_int d) / 2 powr (of_int j)" unfolding u by simp
  also have "\<dots> = of_int m * 2 powr (of_int d)" unfolding x by simp
  also have "\<dots> = of_int (m * 2 ^ nat d)" unfolding pd by simp
  finally have q: "x / ulp64 x = of_int (m * 2 ^ nat d)" .
  have r: "round_even (x / ulp64 x) = m * 2 ^ nat d" unfolding q by (rule round_even_of_int)
  have "fl64 x = of_int (round_even (x / ulp64 x)) * ulp64 x"
    using False by (simp add: fl64_def)
  also have "\<dots> = of_int (m * 2 ^ nat d) * ulp64 x" by (simp only: r)
  also have "\<dots> = of_int m * 2 powr (of_int d) * (2 powr (of_int j) / 2 powr (of_int d))"
    unfolding u pd by simp
  also have "\<dots> = of_int m * 2 powr (of_int j)" by simp
  also have "\<dots> = x" by (simp add: x)
  finally show ?thesis .
qed

lemma fl64_range:
  assumes x0: "0 \<le> x" and xM: "x \<le> of_int M" and M: "M < 2 ^ 53"
  shows "0 \<le> fl64 x \<and> fl64 x \<le> of_int M"
proof (cases "x = 0")
  case True then show ?thesis using xM by (simp add: fl64_def)
next
  case False
  have "\<bar>x\<bar> \<le> of_int M" using x0 xM by simp
  also have "real_of_int M < real_of_int (2 ^ 53)" using M by (simp only: of_int_less_iff)
  also have "real_of_int (2 ^ 53) = 2 powr (of_int 52 + 1)"
    by (simp add: powr_realpow[symmetric])
  finally have lt: "\<bar>x\<bar> < 2 powr (of_int 52 + 1)" .
  have le: "bexp x \<le> 52" using False lt by (intro bexp_le) auto
  define d where "d = 52 - bexp x"
  have d: "0 \<le> d" using le by (simp add: d_def)
  have "ulp64 x * 2 powr (of_int d) = 1"
    unfolding ulp64_def d_def by (simp add: powr_add[symmetric])
  then have u: "ulp64 x = 1 / 2 powr (of_int d)"
    by (simp add: field_simps)
  have up: "0 < ulp64 x" by (rule ulp64_pos)
  have Mq: "of_int M / ulp64 x = of_int (M * 2 ^ nat d)"
    unfolding u using powr2_nonneg_int[OF d] by simp
  have "x / ulp64 x \<le> of_int M / ulp64 x" using xM up by (simp add: divide_right_mono)
  then have "round_even (x / ulp64 x) \<le> M * 2 ^ nat d" unfolding Mq by (rule round_even_le)
  then have "real_of_int (round_even (x / ulp64 x)) \<le> of_int (M * 2 ^ nat d)"
    by (simp only: of_int_le_iff)
  then have "real_of_int (round_even (x / ulp64 x)) * ulp64 x \<le> of_int (M * 2 ^ nat d) * ulp64 x"
    using up by (simp add: mult_right_mono)
  also have "\<dots> = of_int M" using Mq up by (simp add: field_simps)
  finally have upper: "fl64 x \<le> of_int M" using False by (simp add: fl64_def)
  have "real_of_int 0 \<le> x / ulp64 x" using x0 up by simp
  then have "0 \<le> round_even (x / ulp64 x)" by (rule round_even_ge)
  then have "0 \<le> fl64 x" using False up by (simp add: fl64_def)
  then show ?thesis using upper by simp
qed


lemma fl64_by_scale:
  assumes lo: "2 ^ 52 \<le> \<bar>x\<bar> * 2 ^ n" and hi: "\<bar>x\<bar> * 2 ^ n < 2 ^ 53" and n: "n \<le> 1074"
  shows "fl64 x = of_int (round_even (x * 2 ^ n)) / 2 ^ n"
proof -
  have x: "x \<noteq> 0" using lo by auto
  have p: "(2::real) powr (of_int (52 - int n)) = 2 ^ 52 / 2 ^ n"
    by (simp add: powr_diff powr2_nat powr_realpow[symmetric])
  have "2 powr (of_int (52 - int n)) \<le> \<bar>x\<bar>" unfolding p using lo by (simp add: field_simps)
  moreover have "\<bar>x\<bar> < 2 powr (of_int (52 - int n) + 1)"
    unfolding powr_add p using hi by (simp add: field_simps)
  ultimately have b: "bexp x = 52 - int n" using x n by (intro bexp_eq) auto
  have u: "ulp64 x = 1 / 2 ^ n"
    unfolding ulp64_def b by (simp add: powr_minus powr_realpow field_simps)
  show ?thesis using x unfolding fl64_def u by simp
qed

lemma fl64_zero [simp]: "fl64 0 = 0"
  by (simp add: fl64_def)

lemma fl64_of_int: "\<bar>m\<bar> < 2 ^ 53 \<Longrightarrow> fl64 (of_int m) = of_int m"
  using fl64_exact[of "of_int m" m 0] by simp


lemma fl64_dyadic:
  "\<bar>m\<bar> < 2 ^ 53 \<Longrightarrow> n \<le> 1074 \<Longrightarrow> fl64 (real_of_int m / 2 ^ n) = real_of_int m / 2 ^ n"
proof -
  assume m: "\<bar>m\<bar> < 2 ^ 53" and n: "n \<le> 1074"
  have "real_of_int m / 2 ^ n = of_int m * 2 powr (of_int (- int n))"
    by (simp add: powr_minus powr_realpow field_simps)
  then show ?thesis using fl64_exact[of "real_of_int m / 2 ^ n" m "- int n"] m n by simp
qed

lemma py_int_trunc:
  "\<bar>real_of_int (py_int x)\<bar> \<le> \<bar>x\<bar> \<and> \<bar>x\<bar> < \<bar>real_of_int (py_int x)\<bar> + 1 \<and>
   0 \<le> real_of_int (py_int x) * x"
proof (cases "x < 0")
  case True
  then have c: "py_int x = \<lceil>x\<rceil>" by (simp add: py_int_def)
  have "real_of_int \<lceil>x\<rceil> \<le> 0" using True by (simp add: ceiling_le_iff)
  moreover have "x \<le> real_of_int \<lceil>x\<rceil>" by simp
  moreover have "real_of_int \<lceil>x\<rceil> < x + 1" by linarith
  ultimately show ?thesis using True c by (simp add: mult_nonpos_nonpos)
next
  case False
  then have c: "py_int x = \<lfloor>x\<rfloor>" by (simp add: py_int_def)
  have "0 \<le> real_of_int \<lfloor>x\<rfloor>" using False by simp
  moreover have "real_of_int \<lfloor>x\<rfloor> \<le> x" by simp
  moreover have "x < real_of_int \<lfloor>x\<rfloor> + 1" by linarith
  ultimately show ?thesis using False c by simp
qed

lemma na_center_Fin:
  "na_center (Fin c) L =
     (if f64_overflow \<le> \<bar>fl64 (c * real L)\<bar> then Inl OverflowError
      else Inr (py_int (fl64 (c * real L))))"
  by (simp add: na_center_def np_times_int_def f64_def)

lemma na_center_nonfinite:
  "na_center NaN L = Inl ValueError \<and>
   na_center PInf L = (if L = 0 then Inl ValueError else Inl OverflowError) \<and>
   na_center NInf L = (if L = 0 then Inl ValueError else Inl OverflowError)"
  by (simp add: na_center_def np_times_int_def)

subsection \<open>The split index\<close>

text \<open>
  C1 (as stated). The claim that the split index is \<open>round(center * L)\<close> clamped to
  \<open>[0, L]\<close> fails: for a centre fraction of \<open>7/8\<close> and a cycle of two samples the
  product is \<open>1.75\<close> (exact in float64), which \<open>int\<close> truncates to 1 and rounding
  takes to 2.
\<close>

theorem na_center_not_rounded:
  "na_center (Fin (7/8)) 2 = Inr 1 \<and> spec_split (7/8) 2 = 2"
proof -
  have "fl64 (real_of_int 7 / 2 ^ 2) = real_of_int 7 / 2 ^ 2" by (rule fl64_dyadic) simp_all
  then have e: "fl64 (7/4) = 7/4" by simp
  show ?thesis
    by (simp add: na_center_Fin e py_int_def spec_split_def round_def f64_overflow_def)
qed

text \<open>Nor is the index clamped: a centre fraction outside \<open>[0, 1]\<close> leaves \<open>[0, L]\<close>.\<close>

lemma na_center_unclamped:
  "na_center (Fin (3/2)) 2 = Inr 3 \<and> na_center (Fin (- 1/2)) 4 = Inr (- 2)"
proof -
  have "fl64 (real_of_int 3) = real_of_int 3" by (rule fl64_of_int) simp
  moreover have "fl64 (real_of_int (- 2)) = real_of_int (- 2)" by (rule fl64_of_int) simp
  ultimately show ?thesis by (simp add: na_center_Fin py_int_def f64_overflow_def)
qed

text \<open>
  C1 (amended). For a cycle of fewer than \<open>2^53\<close> samples the split index is
  \<open>int(Na_center * cyc_len)\<close>: the float64 product, truncated toward zero. Whenever
  the rounded product is finite the index is its truncation: of magnitude not above
  that of the product, less than 1 away from it, and of the same sign. For a centre
  fraction in \<open>[0, 1]\<close> the index is the floor of the rounded product and lies in
  \<open>[0, L]\<close> without any clamping. A product that overflows raises \<open>OverflowError\<close>,
  as does an infinite centre on a non-empty cycle, and a NaN centre raises
  \<open>ValueError\<close>.
\<close>

theorem na_center_truncates:
  assumes L: "L < 2 ^ 53"
  shows
  "(\<bar>fl64 (c * real L)\<bar> < f64_overflow \<longrightarrow>
      na_center (Fin c) L = Inr (py_int (fl64 (c * real L))) \<and>
      \<bar>real_of_int (py_int (fl64 (c * real L)))\<bar> \<le> \<bar>fl64 (c * real L)\<bar> \<and>
      \<bar>fl64 (c * real L)\<bar> < \<bar>real_of_int (py_int (fl64 (c * real L)))\<bar> + 1 \<and>
      0 \<le> real_of_int (py_int (fl64 (c * real L))) * fl64 (c * real L)) \<and>
   (0 \<le> c \<and> c \<le> 1 \<longrightarrow>
      (\<exists>k. na_center (Fin c) L = Inr k \<and> k = \<lfloor>fl64 (c * real L)\<rfloor> \<and> 0 \<le> k \<and> k \<le> int L)) \<and>
   (f64_overflow \<le> \<bar>fl64 (c * real L)\<bar> \<longrightarrow> na_center (Fin c) L = Inl OverflowError) \<and>
   (0 < L \<longrightarrow> na_center PInf L = Inl OverflowError \<and> na_center NInf L = Inl OverflowError) \<and>
   na_center NaN L = Inl ValueError"
proof -
  let ?p = "fl64 (c * real L)"
  have fin: "na_center (Fin c) L = Inr (py_int ?p)" if "\<bar>?p\<bar> < f64_overflow"
    using that by (simp add: na_center_Fin)
  have unit: "\<exists>k. na_center (Fin c) L = Inr k \<and> k = \<lfloor>?p\<rfloor> \<and> 0 \<le> k \<and> k \<le> int L"
    if c0: "0 \<le> c" and c1: "c \<le> 1"
  proof -
    have nn: "0 \<le> c * real L" using c0 by simp
    have le: "c * real L \<le> real_of_int (int L)" using c0 c1 by (simp add: mult_left_le_one_le)
    have "int L < 2 ^ 53" using L by (metis of_nat_less_numeral_power_cancel_iff)
    from fl64_range[OF nn le this] have r: "0 \<le> ?p" "?p \<le> real L" by simp_all
    have "real L < 2 ^ 53" using L by (metis of_nat_less_numeral_power_cancel_iff)
    moreover have "(2::real) ^ 53 < f64_overflow" by (simp add: f64_overflow_def)
    ultimately have small: "\<bar>?p\<bar> < f64_overflow" using r by linarith
    have k: "py_int ?p = \<lfloor>?p\<rfloor>" using r by (simp add: py_int_def)
    have "\<lfloor>?p\<rfloor> \<le> \<lfloor>real L\<rfloor>" using r(2) by (rule floor_mono)
    then have "\<lfloor>?p\<rfloor> \<le> int L" by simp
    moreover have "0 \<le> \<lfloor>?p\<rfloor>" using r(1) by simp
    ultimately show ?thesis using fin[OF small] k by simp
  qed
  have ovf: "na_center (Fin c) L = Inl OverflowError" if "f64_overflow \<le> \<bar>?p\<bar>"
    using that by (simp add: na_center_Fin)
  have nan: "na_center NaN L = Inl ValueError" by (simp add: na_center_nonfinite)
  have inf: "na_center PInf L = Inl OverflowError \<and> na_center NInf L = Inl OverflowError"
    if "0 < L"
    using that by (simp add: na_center_nonfinite)
  show ?thesis using fin unit ovf inf nan py_int_trunc[of ?p] by blast
qed

theorem na_center_truncates_witness:
  "(0::real) \<le> 5404319552844595 / 2 ^ 54 \<and> (5404319552844595 / 2 ^ 54 :: real) \<le> 1 \<and>
   (10::nat) < 2 ^ 53 \<and>
   na_center (Fin (5404319552844595 / 2 ^ 54)) 10 = Inr 3"
proof -
  have p: "fl64 (27021597764222975 / 9007199254740992) = 3"
    by (subst fl64_by_scale[where n=51]) (simp_all add: round_even_def)
  have "\<exists>k. na_center (Fin (5404319552844595 / 2 ^ 54)) 10 = Inr k \<and>
      k = \<lfloor>fl64 (5404319552844595 / 2 ^ 54 * real 10)\<rfloor>"
    using na_center_truncates [where c = "5404319552844595 / 2 ^ 54" and L = 10] by simp
  then show ?thesis by (simp add: p)
qed

subsection \<open>Indices outside the waveform\<close>

text \<open>
  C5 (as stated). The claim that an index outside the waveform raises fails: on a
  waveform of three samples, \<open>start = 1\<close> and \<open>end = 5\<close> give the last two samples.
\<close>

theorem sig_cyc_out_of_bounds: "sig_cyc [1, 2, 3] 1 5 = [2, 3]"
  by (simp add: sig_cyc_def py_slice_def slice_index_def)

text \<open>
  C5 (amended). For non-negative int64 indices whose \<open>end + 1\<close> does not overflow
  (\<open>end < 2^63 - 1\<close>), the extracted cycle is the slice \<open>sig[start:end+1]\<close> clipped
  to the waveform: empty when \<open>end < start\<close> or when \<open>start\<close> is past the last
  sample, and running to the last sample when \<open>end\<close> is past it. No case raises.
\<close>

theorem sig_cyc_clipped:
  "0 \<le> start \<Longrightarrow> start < 2 ^ 63 \<Longrightarrow> 0 \<le> end \<Longrightarrow> end < 2 ^ 63 - 1 \<Longrightarrow>
     sig_cyc sig start end = take (nat (end + 1) - nat start) (drop (nat start) sig) \<and>
     (end < start \<longrightarrow> sig_cyc sig start end = []) \<and>
     (int (length sig) \<le> end \<longrightarrow> sig_cyc sig start end = drop (nat start) sig) \<and>
     (int (length sig) \<le> start \<longrightarrow> sig_cyc sig start end = [])"
  by (auto simp: sig_cyc_def py_slice_nonneg)

theorem sig_cyc_clipped_witness:
  "(0::int) \<le> 2 \<and> (2::int) < 2 ^ 63 \<and> (0::int) \<le> 0 \<and> (0::int) < 2 ^ 63 - 1 \<and> (0::int) < 2 \<and>
   sig_cyc [1, 2, 3] 2 0 = []"
  using sig_cyc_clipped [of 2 0 "[1, 2, 3]"] by simp

subsection \<open>Sequencing\<close>


lemma bind_err_Inr [simp]: "bind_err (Inr v) f = f v"
  by (simp add: bind_err_def)



subsection \<open>Aligned spike minima\<close>












subsection \<open>The three-component fit\<close>

lemma length_zscore [simp]: "length (zscore a) = length a"
  by (simp add: zscore_def Let_def)





lemma length_slice_from: "length (slice_from xs s) = length xs - slice_index (length xs) s"
  by (simp add: slice_from_def)

















text \<open>
  The hypothesis on the time axis is needed: \<open>np.arange\<close> can return one entry more
  than the cycle has samples. For five samples at \<open>fs = 3\<close> the float64 quotient of
  \<open>5/3\<close> and \<open>1/3\<close> exceeds 5, the axis has six entries, and the first plot of a
  region against its part of the axis raises \<open>ValueError\<close>.
\<close>

lemma times_cyc_overshoot: "length (times_cyc 5 3) = 6"
proof -
  have a: "fl64 (5 / 3) = 7505999378950827 / 4503599627370496"
    by (subst fl64_by_scale[where n=52]) (simp_all add: round_even_def)
  have b: "fl64 (1 / 3) = 6004799503160661 / 18014398509481984"
    by (subst fl64_by_scale[where n=54]) (simp_all add: round_even_def)
  have c: "fl64 (10007999171934436 / 2001599834386887) = 5629499534213121 / 1125899906842624"
    by (subst fl64_by_scale[where n=50]) (simp_all add: round_even_def)
  have "\<lceil>5629499534213121 / 1125899906842624 :: real\<rceil> = 6" by (simp add: ceiling_eq_iff)
  then show ?thesis by (simp add: times_cyc_def np_arange0_def a b c)
qed

lemma run_axis_too_long:
  "plot_gaussian_fit flat_sim (example_row\<lparr>sample_end := 4\<rparr>) [1, 1, 1, 1, 1] 3 1 1 run_empty =
     Inl ValueError"
proof -
  let ?df = "example_row\<lparr>sample_end := 4\<rparr>"
  have l5: "length [1, 1, 1, 1, 1::real] = 5" by simp
  have cyc: "sig_cyc [1, 1, 1, 1, 1] (sample_start ?df) (sample_end ?df) = [1, 1, 1, 1, 1]"
    by (simp add: sig_cyc_def py_slice_def slice_index_def example_row_def)
  have a: "fl64 (5 / 3) = 7505999378950827 / 4503599627370496"
    by (subst fl64_by_scale[where n=52]) (simp_all add: round_even_def)
  have b: "fl64 (22517998136852481 / 4503599627370496) = 5"
    by (subst fl64_by_scale[where n=50]) (simp_all add: round_even_def)
  have na: "call_sim flat_sim (na_params ?df 5 3) run_empty =
      Inr ([1, 1, 1, 1, 1], run_empty\<lparr>sim_calls := [na_params ?df 5 3]\<rparr>)"
    by (simp add: call_sim_def flat_sim_def na_params_def example_row_def a b run_empty_def
        eval_nat_numeral)
  have c: "fl64 (5 / 2) = 5 / 2" using fl64_dyadic[of 5 1] by simp
  have split: "na_center (Na_center example_row) 5 = Inr 2"
    by (simp add: na_center_Fin example_row_def c py_int_def f64_overflow_def)
  have sub: "np_subtract [1, 1, 1, 1, 1] [1, 1, 1, 1, 1] = Inr [0, 0, 0, 0, 0]"
    by (simp add: np_subtract_def)
  have lk: "length (np_scale 3 (times_k (times_cyc 5 3) 2)) = 4"
    by (simp add: np_scale_def times_k_def length_slice_from times_cyc_overshoot slice_index_def)
  have rk: "length (map Fin (rem_sig_k [0, 0, 0, 0, 0] 2)) = 3"
    by (simp add: rem_sig_k_def slice_from_def slice_index_def)
  have p: "plt_plot (np_scale 3 (times_k (times_cyc 5 3) 2)) (map Fin (rem_sig_k [0, 0, 0, 0, 0] 2)) s =
      Inl ValueError" for s
    unfolding plt_plot_def lk rk by simp
  show ?thesis
    unfolding plot_gaussian_fit_def Let_def cyc l5 na
    by (simp add: split sub p bind_err_def)
qed

end
